theory Spec2Isabelle
  imports Complex_Main
begin

section \<open>Data model\<close>

text \<open>
  A key is the Python dict built by \<^verbatim>\<open>presets._key\<close> and \<^verbatim>\<open>EditorCanvas.add_key\<close>.
  Grid coordinates and sizes are Python numbers (ints or floats); they are modelled as
  exact rationals, so float rounding error is not part of the model.  The optional
  entries \<^verbatim>\<open>color\<close> and \<^verbatim>\<open>text_color\<close> are \<^verbatim>\<open>None\<close> or a string, the entry
  \<^verbatim>\<open>label\<close> is read with \<^verbatim>\<open>k.get("label", ...)\<close> and may be missing.
\<close>

record key =
  key_id :: string
  key_label :: "string option"
  key_x :: rat
  key_y :: rat
  key_w :: rat
  key_h :: rat
  key_color :: "string option"
  key_text_color :: "string option"

text \<open>
  A theme is a dict over the keys of \<^verbatim>\<open>config.DEFAULT_THEME\<close>; every read is
  \<^verbatim>\<open>t.get(name, default)\<close>, so each entry may be missing (\<open>None\<close>).
\<close>

record theme =
  bg :: "string option"
  key_idle :: "string option"
  key_pressed :: "string option"
  mouse_idle :: "string option"
  mouse_pressed :: "string option"
  key_text :: "string option"
  key_outline :: "string option"
  font_family :: "string option"
  font_size :: "int option"
  font_bold :: "bool option"
  key_radius :: "int option"
  key_unit_px :: "int option"
  key_gap_px :: "int option"
  key_height_px :: "int option"
  overlay_alpha :: "rat option"
  grid_size :: "int option"
  grid_visible :: "bool option"
  snap_to_grid :: "bool option"

definition empty_theme :: theme where
  "empty_theme = \<lparr> bg = None, key_idle = None, key_pressed = None, mouse_idle = None,
     mouse_pressed = None, key_text = None, key_outline = None, font_family = None,
     font_size = None, font_bold = None, key_radius = None, key_unit_px = None,
     key_gap_px = None, key_height_px = None, overlay_alpha = None, grid_size = None,
     grid_visible = None, snap_to_grid = None \<rparr>"

definition DEFAULT_THEME :: theme where
  "DEFAULT_THEME = \<lparr> bg = Some ''#111111'', key_idle = Some ''#2a2a3a'',
     key_pressed = Some ''#7b68ee'', mouse_idle = Some ''#1e3a5f'',
     mouse_pressed = Some ''#1e90ff'', key_text = Some ''#ffffff'',
     key_outline = Some ''#444466'', font_family = Some ''Consolas'',
     font_size = Some 10, font_bold = Some True, key_radius = Some 6,
     key_unit_px = Some 44, key_gap_px = Some 4, key_height_px = Some 44,
     overlay_alpha = Some (93 / 100), grid_size = Some 44,
     grid_visible = Some True, snap_to_grid = Some True \<rparr>"

text \<open>\<^verbatim>\<open>d.get(name, default)\<close>.\<close>

definition dict_get :: "'a option \<Rightarrow> 'a \<Rightarrow> 'a" where
  "dict_get entry dflt = (case entry of None \<Rightarrow> dflt | Some v \<Rightarrow> v)"

text \<open>The module constants of \<^verbatim>\<open>overlay.py\<close> and \<^verbatim>\<open>editor.py\<close>.\<close>

definition UNIT :: int where "UNIT = 44"
definition GAP :: int where "GAP = 4"
definition KH :: int where "KH = 44"
definition PAD :: int where "PAD = 10"
definition GRID :: int where "GRID = 44"

section \<open>Python primitives\<close>

datatype error = ZeroDivisionError | ValueError

text \<open>\<^verbatim>\<open>int(v)\<close> on a number truncates towards zero.\<close>

definition py_int :: "rat \<Rightarrow> int" where
  "py_int v = (if 0 \<le> v then \<lfloor>v\<rfloor> else \<lceil>v\<rceil>)"

text \<open>\<^verbatim>\<open>round(v)\<close> with one argument: the nearest integer, a tie going to the even one.\<close>

definition py_round :: "rat \<Rightarrow> int" where
  "py_round v =
     (let f = \<lfloor>v\<rfloor>; d = v - of_int f
      in if d < 1 / 2 then f else if 1 / 2 < d then f + 1 else if even f then f else f + 1)"

text \<open>\<^verbatim>\<open>a / b\<close>: true division, raising on a zero divisor.\<close>

definition py_truediv :: "rat \<Rightarrow> rat \<Rightarrow> error + rat" where
  "py_truediv a b = (if b = 0 then Inl ZeroDivisionError else Inr (a / b))"

text \<open>\<^verbatim>\<open>max(iterable)\<close>: raises \<^verbatim>\<open>ValueError\<close> on an empty sequence.\<close>

fun py_max :: "rat list \<Rightarrow> error + rat" where
  "py_max [] = Inl ValueError"
| "py_max (v # vs) = Inr (foldl max v vs)"

text \<open>Truth value of an optional string: \<^verbatim>\<open>None\<close> and \<^verbatim>\<open>""\<close> are false.\<close>

definition truthy :: "string option \<Rightarrow> bool" where
  "truthy c = (case c of None \<Rightarrow> False | Some s \<Rightarrow> s \<noteq> [])"

text \<open>\<^verbatim>\<open>c and None\<close>: the left operand when it is false, else \<^verbatim>\<open>None\<close>.\<close>

definition and_None :: "string option \<Rightarrow> string option" where
  "and_None c = (if truthy c then None else c)"

text \<open>
  \<^verbatim>\<open>QColor(name)\<close> is kept symbolic.  On a string Qt returns a (possibly invalid)
  colour and does not raise, so the \<^verbatim>\<open>except\<close> branch of \<^verbatim>\<open>_hex\<close> is not taken for
  the string-typed colours of the data model.
\<close>

datatype qcolor = QColor string

definition hex :: "string option \<Rightarrow> string \<Rightarrow> qcolor" where
  "hex color fallback =
     (case color of
        None \<Rightarrow> QColor fallback
      | Some c \<Rightarrow> if c \<noteq> [] then QColor c else QColor fallback)"

section \<open>Geometry shared by overlay and editor\<close>

definition unit_of :: "theme \<Rightarrow> int" where
  "unit_of t = dict_get (key_unit_px t) UNIT"

definition gap_of :: "theme \<Rightarrow> int" where
  "gap_of t = dict_get (key_gap_px t) GAP"

definition kh_of :: "theme \<Rightarrow> int" where
  "kh_of t = dict_get (key_height_px t) KH"

text \<open>A \<^verbatim>\<open>QRectF(px, py, pw, ph)\<close>.\<close>

record qrectf =
  rect_x :: rat
  rect_y :: rat
  rect_w :: rat
  rect_h :: rat

text \<open>
  \<^verbatim>\<open>EditorCanvas._key_rect\<close>, and the same four lines under "Pixel rect" in
  \<^verbatim>\<open>OverlayWindow.paintEvent\<close>.
\<close>

definition key_rect :: "theme \<Rightarrow> key \<Rightarrow> qrectf" where
  "key_rect t k =
     (let u = unit_of t; g = gap_of t; kh = kh_of t;
          px = of_int PAD + key_x k * of_int (u + g);
          py = of_int PAD + key_y k * of_int (kh + g);
          pw = key_w k * of_int u + (key_w k - 1) * of_int g;
          ph = key_h k * of_int kh + (key_h k - 1) * of_int g
      in \<lparr> rect_x = px, rect_y = py, rect_w = pw, rect_h = ph \<rparr>)"

section \<open>The overlay window\<close>

text \<open>
  The fields of \<^verbatim>\<open>OverlayWindow\<close> that its methods read and write, and the two
  effects on the Qt widget they have: the fixed size set by \<^verbatim>\<open>setFixedSize\<close>, the
  opacity set by \<^verbatim>\<open>setWindowOpacity\<close>, and the number of repaint requests
  (\<^verbatim>\<open>self.update()\<close>) made so far.
\<close>

record overlay =
  ov_keys :: "key list"
  ov_theme :: theme
  ov_pressed :: "string set"
  ov_size :: "int \<times> int"
  ov_opacity :: rat
  ov_updates :: nat

definition setup_window :: "overlay \<Rightarrow> overlay" where
  "setup_window s = s\<lparr> ov_opacity := dict_get (overlay_alpha (ov_theme s)) (93 / 100) \<rparr>"

text \<open>The loop of \<^verbatim>\<open>_compute_geometry\<close>, with the running maxima as accumulator.\<close>

fun geometry_loop :: "int \<Rightarrow> int \<Rightarrow> int \<Rightarrow> key list \<Rightarrow> rat \<times> rat \<Rightarrow> rat \<times> rat" where
  "geometry_loop u g kh [] (max_x, max_y) = (max_x, max_y)"
| "geometry_loop u g kh (k # ks) (max_x, max_y) =
     (let rx = key_x k * of_int (u + g) + key_w k * of_int u + (key_w k - 1) * of_int g;
          ry = key_y k * of_int (kh + g) + key_h k * of_int kh + (key_h k - 1) * of_int g
      in geometry_loop u g kh ks (max max_x rx, max max_y ry))"

definition compute_geometry :: "overlay \<Rightarrow> overlay" where
  "compute_geometry s =
     (let t = ov_theme s;
          u = dict_get (key_unit_px t) UNIT;
          g = dict_get (key_gap_px t) 4;
          kh = dict_get (key_height_px t) UNIT;
          pad = 10;
          (max_x, max_y) = geometry_loop u g kh (ov_keys s) (0, 0);
          w = py_int max_x + pad * 2;
          h = py_int max_y + pad * 2
      in s\<lparr> ov_size := (w, h) \<rparr>)"

text \<open>\<^verbatim>\<open>self.update()\<close>: one more repaint request.\<close>

definition request_update :: "overlay \<Rightarrow> overlay" where
  "request_update s = s\<lparr> ov_updates := Suc (ov_updates s) \<rparr>"

text \<open>\<^verbatim>\<open>OverlayWindow.__init__\<close>.\<close>

definition overlay_init :: "key list \<Rightarrow> theme \<Rightarrow> overlay" where
  "overlay_init keys t =
     compute_geometry (setup_window
       \<lparr> ov_keys = keys, ov_theme = t, ov_pressed = {}, ov_size = (0, 0),
         ov_opacity = 1, ov_updates = 0 \<rparr>)"

text \<open>
  \<^verbatim>\<open>OverlayWindow.load_keys\<close>.  The test \<^verbatim>\<open>if theme:\<close> is false for \<^verbatim>\<open>None\<close> and
  for an empty dict.
\<close>

definition load_keys :: "key list \<Rightarrow> theme option \<Rightarrow> overlay \<Rightarrow> overlay" where
  "load_keys keys th s =
     (let s1 = s\<lparr> ov_keys := keys \<rparr>;
          s2 = (case th of
                  None \<Rightarrow> s1
                | Some t \<Rightarrow> if t \<noteq> empty_theme then s1\<lparr> ov_theme := t \<rparr> else s1)
      in request_update (compute_geometry (setup_window s2)))"

text \<open>\<^verbatim>\<open>OverlayWindow.update_key\<close>.\<close>

definition update_key :: "string \<Rightarrow> bool \<Rightarrow> overlay \<Rightarrow> overlay" where
  "update_key kid pressed s =
     (if pressed \<and> kid \<notin> ov_pressed s then
        request_update (s\<lparr> ov_pressed := insert kid (ov_pressed s) \<rparr>)
      else if \<not> pressed \<and> kid \<in> ov_pressed s then
        request_update (s\<lparr> ov_pressed := ov_pressed s - {kid} \<rparr>)
      else s)"

text \<open>\<^verbatim>\<open>OverlayWindow.set_theme\<close>.\<close>

definition set_theme :: "theme \<Rightarrow> overlay \<Rightarrow> overlay" where
  "set_theme t s = request_update (compute_geometry (setup_window (s\<lparr> ov_theme := t \<rparr>)))"

text \<open>
  The body of the loop of \<^verbatim>\<open>OverlayWindow.paintEvent\<close>: what is drawn for one key.
\<close>

definition is_mouse :: "key \<Rightarrow> bool" where
  "is_mouse k = (take 6 (key_id k) = ''mouse_'')"

definition bg_color :: "theme \<Rightarrow> string set \<Rightarrow> key \<Rightarrow> qcolor" where
  "bg_color t pressed_set k =
     (if key_id k \<in> pressed_set then
        (if is_mouse k then hex None (dict_get (mouse_pressed t) ''#1e90ff'')
         else hex (and_None (key_color k)) (dict_get (key_pressed t) ''#7b68ee''))
      else
        (if truthy (key_color k) then hex (key_color k) (dict_get (key_idle t) ''#2a2a3a'')
         else if is_mouse k then hex None (dict_get (mouse_idle t) ''#1e3a5f'')
         else hex None (dict_get (key_idle t) ''#2a2a3a'')))"

definition text_color :: "theme \<Rightarrow> key \<Rightarrow> qcolor" where
  "text_color t k =
     (if truthy (key_text_color k) then hex (key_text_color k) (dict_get (key_text t) ''#ffffff'')
      else hex None (dict_get (key_text t) ''#ffffff''))"

record drawn =
  d_bg :: qcolor
  d_outline :: qcolor
  d_text :: qcolor
  d_rect :: qrectf
  d_label :: string
  d_point_size :: int

definition paint_key :: "theme \<Rightarrow> string set \<Rightarrow> key \<Rightarrow> drawn" where
  "paint_key t pressed_set k =
     (let label = dict_get (key_label k) (key_id k)
      in \<lparr> d_bg = bg_color t pressed_set k,
           d_outline = hex (Some (dict_get (key_outline t) ''#444466'')) ''#444466'',
           d_text = text_color t k,
           d_rect = key_rect t k,
           d_label = label,
           d_point_size = (if 5 < length label then max 6 (dict_get (font_size t) 10 - 2)
                           else dict_get (font_size t) 10) \<rparr>)"

definition paintEvent :: "overlay \<Rightarrow> drawn list" where
  "paintEvent s = map (paint_key (ov_theme s) (ov_pressed s)) (ov_keys s)"

section \<open>The editor canvas\<close>

text \<open>
  \<^verbatim>\<open>EditorCanvas\<close> holds references to mutable key dicts: \<^verbatim>\<open>_selected\<close> and
  \<^verbatim>\<open>_drag_key\<close> are the very objects that sit in \<^verbatim>\<open>_keys\<close>, and assignments through
  them are seen through the list.  The model makes the object store explicit: \<open>ed_heap\<close>
  holds every key dict ever created for this canvas, an address is an index into it, a new
  dict is appended, and the list, the selection and the drag target hold addresses.
  The Qt signals emitted are logged in \<open>ed_signals\<close>, repaint requests are counted in
  \<open>ed_updates\<close>, and \<open>ed_min_size\<close> is the value last given to \<^verbatim>\<open>setMinimumSize\<close>.
\<close>

datatype signal = selection_changed "nat option" | layout_changed

record editor =
  ed_theme :: theme
  ed_heap :: "key list"
  ed_keys :: "nat list"
  ed_selected :: "nat option"
  ed_drag_key :: "nat option"
  ed_drag_offset :: "rat \<times> rat"
  ed_snap :: bool
  ed_grid :: int
  ed_show_grid :: bool
  ed_min_size :: "int \<times> int"
  ed_signals :: "signal list"
  ed_updates :: nat

definition emit :: "signal \<Rightarrow> editor \<Rightarrow> editor" where
  "emit sig s = s\<lparr> ed_signals := ed_signals s @ [sig] \<rparr>"

definition canvas_update :: "editor \<Rightarrow> editor" where
  "canvas_update s = s\<lparr> ed_updates := Suc (ed_updates s) \<rparr>"

text \<open>\<^verbatim>\<open>EditorCanvas.__init__\<close>.\<close>

definition editor_init :: "theme \<Rightarrow> editor" where
  "editor_init t =
     \<lparr> ed_theme = t, ed_heap = [], ed_keys = [], ed_selected = None, ed_drag_key = None,
       ed_drag_offset = (0, 0),
       ed_snap = dict_get (snap_to_grid t) True,
       ed_grid = dict_get (grid_size t) GRID,
       ed_show_grid = dict_get (grid_visible t) True,
       ed_min_size = (900, 500), ed_signals = [], ed_updates = 0 \<rparr>"

text \<open>\<^verbatim>\<open>_unit\<close>, \<^verbatim>\<open>_gap\<close>, \<^verbatim>\<open>_kh\<close> and \<^verbatim>\<open>_key_rect\<close> on the canvas' theme.\<close>

definition canvas_key_rect :: "editor \<Rightarrow> nat \<Rightarrow> qrectf" where
  "canvas_key_rect s a = key_rect (ed_theme s) (ed_heap s ! a)"

text \<open>\<^verbatim>\<open>EditorCanvas._snap_pos\<close>.  With snapping on, the result is a pair of ints.\<close>

definition snap_pos :: "editor \<Rightarrow> rat \<Rightarrow> rat \<Rightarrow> error + rat \<times> rat" where
  "snap_pos s x y =
     (if \<not> ed_snap s then Inr (x, y)
      else
        let u = unit_of (ed_theme s); g = gap_of (ed_theme s); kh = kh_of (ed_theme s);
            gx = u + g;
            gy = kh + g
        in case py_truediv x (of_int gx) of
             Inl e \<Rightarrow> Inl e
           | Inr qx \<Rightarrow>
               (case py_truediv y (of_int gy) of
                  Inl e \<Rightarrow> Inl e
                | Inr qy \<Rightarrow> Inr (of_int (py_round qx), of_int (py_round qy))))"

text \<open>\<^verbatim>\<open>EditorCanvas._resize_to_fit\<close>.\<close>

definition resize_to_fit :: "editor \<Rightarrow> error + editor" where
  "resize_to_fit s =
     (if ed_keys s = [] then Inr s
      else
        let u = unit_of (ed_theme s); g = gap_of (ed_theme s); kh = kh_of (ed_theme s);
            ks = map (\<lambda>a. ed_heap s ! a) (ed_keys s)
        in case py_max (map (\<lambda>k. of_int PAD + key_x k * of_int (u + g) + key_w k * of_int u
                                  + (key_w k - 1) * of_int g) ks) of
             Inl e \<Rightarrow> Inl e
           | Inr max_x \<Rightarrow>
               (case py_max (map (\<lambda>k. of_int PAD + key_y k * of_int (kh + g)
                                        + key_h k * of_int kh + (key_h k - 1) * of_int g) ks) of
                  Inl e \<Rightarrow> Inl e
                | Inr max_y \<Rightarrow>
                    Inr (s\<lparr> ed_min_size := (py_int max_x + PAD * 4, py_int max_y + PAD * 4) \<rparr>)))"

text \<open>
  \<^verbatim>\<open>EditorCanvas.load_keys\<close>: \<^verbatim>\<open>copy.deepcopy\<close> creates a new dict for every entry of
  the caller's list.
\<close>

definition canvas_load_keys :: "key list \<Rightarrow> editor \<Rightarrow> error + editor" where
  "canvas_load_keys keys s =
     (let n = length (ed_heap s);
          s1 = s\<lparr> ed_heap := ed_heap s @ keys, ed_keys := [n ..< n + length keys] \<rparr>;
          s2 = s1\<lparr> ed_selected := None \<rparr>
      in resize_to_fit (canvas_update (emit (selection_changed None) s2)))"

text \<open>\<^verbatim>\<open>EditorCanvas.get_keys\<close>: a deep copy, that is, the key values.\<close>

definition get_keys :: "editor \<Rightarrow> key list" where
  "get_keys s = map (\<lambda>a. ed_heap s ! a) (ed_keys s)"

definition canvas_set_theme :: "theme \<Rightarrow> editor \<Rightarrow> editor" where
  "canvas_set_theme t s =
     canvas_update (s\<lparr> ed_theme := t,
                       ed_snap := dict_get (snap_to_grid t) True,
                       ed_grid := dict_get (grid_size t) GRID,
                       ed_show_grid := dict_get (grid_visible t) True \<rparr>)"

definition set_snap :: "bool \<Rightarrow> editor \<Rightarrow> editor" where
  "set_snap b s = s\<lparr> ed_snap := b \<rparr>"

definition set_show_grid :: "bool \<Rightarrow> editor \<Rightarrow> editor" where
  "set_show_grid b s = canvas_update (s\<lparr> ed_show_grid := b \<rparr>)"

text \<open>
  \<^verbatim>\<open>EditorCanvas.add_key\<close>.  The argument is the value of \<^verbatim>\<open>uuid.uuid4().hex\<close>
  drawn by this call: 32 hexadecimal digits chosen at random by the library.
\<close>

definition new_key :: "string \<Rightarrow> key" where
  "new_key uuid4_hex =
     \<lparr> key_id = ''key_'' @ take 6 uuid4_hex, key_label = Some ''New'',
       key_x = 0, key_y = 9, key_w = 1, key_h = 1,
       key_color = None, key_text_color = None \<rparr>"

definition add_key :: "string \<Rightarrow> editor \<Rightarrow> editor" where
  "add_key uuid4_hex s =
     (let a = length (ed_heap s);
          s1 = s\<lparr> ed_heap := ed_heap s @ [new_key uuid4_hex], ed_keys := ed_keys s @ [a] \<rparr>;
          s2 = s1\<lparr> ed_selected := Some a \<rparr>
      in canvas_update (emit layout_changed (emit (selection_changed (Some a)) s2)))"

text \<open>\<^verbatim>\<open>EditorCanvas.delete_selected\<close>.\<close>

definition delete_selected :: "editor \<Rightarrow> editor" where
  "delete_selected s =
     (case ed_selected s of
        None \<Rightarrow> s
      | Some a \<Rightarrow>
          let kid = key_id (ed_heap s ! a);
              s1 = s\<lparr> ed_keys := filter (\<lambda>b. key_id (ed_heap s ! b) \<noteq> kid) (ed_keys s) \<rparr>;
              s2 = s1\<lparr> ed_selected := None \<rparr>
          in canvas_update (emit layout_changed (emit (selection_changed None) s2)))"

text \<open>
  \<^verbatim>\<open>EditorCanvas.update_selected\<close>.  The dict of updates is the list of its items in
  iteration order; each item assigns one entry of the selected dict.
\<close>

datatype field_update =
    Set_id string
  | Set_label string
  | Set_x rat
  | Set_y rat
  | Set_w rat
  | Set_h rat
  | Set_color "string option"
  | Set_text_color "string option"

fun assign :: "key \<Rightarrow> field_update \<Rightarrow> key" where
  "assign k (Set_id v) = k\<lparr> key_id := v \<rparr>"
| "assign k (Set_label v) = k\<lparr> key_label := Some v \<rparr>"
| "assign k (Set_x v) = k\<lparr> key_x := v \<rparr>"
| "assign k (Set_y v) = k\<lparr> key_y := v \<rparr>"
| "assign k (Set_w v) = k\<lparr> key_w := v \<rparr>"
| "assign k (Set_h v) = k\<lparr> key_h := v \<rparr>"
| "assign k (Set_color v) = k\<lparr> key_color := v \<rparr>"
| "assign k (Set_text_color v) = k\<lparr> key_text_color := v \<rparr>"

definition update_selected :: "field_update list \<Rightarrow> editor \<Rightarrow> editor" where
  "update_selected updates s =
     (case ed_selected s of
        None \<Rightarrow> s
      | Some a \<Rightarrow>
          canvas_update (emit layout_changed
            (s\<lparr> ed_heap := list_update (ed_heap s) a (foldl assign (ed_heap s ! a) updates) \<rparr>)))"

text \<open>
  \<^verbatim>\<open>QRectF.contains(QPointF)\<close> as Qt defines it: edges are inside, a rectangle of zero
  width or height contains nothing, a negative extent is normalised.
\<close>

definition rect_contains :: "qrectf \<Rightarrow> rat \<times> rat \<Rightarrow> bool" where
  "rect_contains r p =
     (let l = (if rect_w r < 0 then rect_x r + rect_w r else rect_x r);
          rr = (if rect_w r < 0 then rect_x r else rect_x r + rect_w r);
          t = (if rect_h r < 0 then rect_y r + rect_h r else rect_y r);
          b = (if rect_h r < 0 then rect_y r else rect_y r + rect_h r)
      in l \<noteq> rr \<and> l \<le> fst p \<and> fst p \<le> rr \<and> t \<noteq> b \<and> t \<le> snd p \<and> snd p \<le> b)"

text \<open>\<^verbatim>\<open>EditorCanvas._key_at\<close>: the topmost (last) key under the point.\<close>

fun first_hit :: "editor \<Rightarrow> rat \<times> rat \<Rightarrow> nat list \<Rightarrow> nat option" where
  "first_hit s pos [] = None"
| "first_hit s pos (a # as) =
     (if rect_contains (canvas_key_rect s a) pos then Some a else first_hit s pos as)"

definition key_at :: "editor \<Rightarrow> rat \<times> rat \<Rightarrow> nat option" where
  "key_at s pos = first_hit s pos (rev (ed_keys s))"

text \<open>
  \<^verbatim>\<open>EditorCanvas.mousePressEvent\<close>; \<open>left\<close> says that the button of the event is the
  left one.
\<close>

definition mousePressEvent :: "bool \<Rightarrow> rat \<times> rat \<Rightarrow> editor \<Rightarrow> editor" where
  "mousePressEvent left pos s =
     (if left then
        canvas_update
          (case key_at s pos of
             Some hit \<Rightarrow>
               (let rect = canvas_key_rect s hit
                in emit (selection_changed (Some hit))
                     (s\<lparr> ed_selected := Some hit, ed_drag_key := Some hit,
                         ed_drag_offset := (fst pos - rect_x rect, snd pos - rect_y rect) \<rparr>))
           | None \<Rightarrow> emit (selection_changed None) (s\<lparr> ed_selected := None \<rparr>))
      else s)"

text \<open>
  \<^verbatim>\<open>EditorCanvas.mouseMoveEvent\<close>; \<open>left\<close> says that the left button is held.
\<close>

definition mouseMoveEvent :: "bool \<Rightarrow> rat \<times> rat \<Rightarrow> editor \<Rightarrow> error + editor" where
  "mouseMoveEvent left pos s =
     (case ed_drag_key s of
        None \<Rightarrow> Inr s
      | Some a \<Rightarrow>
         (if \<not> left then Inr s
          else
            let u = unit_of (ed_theme s); g = gap_of (ed_theme s); kh = kh_of (ed_theme s)
            in (case py_truediv (fst pos - fst (ed_drag_offset s) - of_int PAD) (of_int (u + g)) of
                  Inl e \<Rightarrow> Inl e
                | Inr raw_x \<Rightarrow>
                   (case py_truediv (snd pos - snd (ed_drag_offset s) - of_int PAD)
                                    (of_int (kh + g)) of
                      Inl e \<Rightarrow> Inl e
                    | Inr raw_y \<Rightarrow>
                       (case snap_pos s raw_x raw_y of
                          Inl e \<Rightarrow> Inl e
                        | Inr (sx, sy) \<Rightarrow>
                           (let nx = max 0 (if ed_snap s then sx else max 0 raw_x);
                                ny = max 0 (if ed_snap s then sy else max 0 raw_y);
                                k = (ed_heap s ! a)\<lparr> key_x := nx, key_y := ny \<rparr>;
                                s1 = s\<lparr> ed_heap := list_update (ed_heap s) a k \<rparr>
                            in resize_to_fit
                                 (canvas_update
                                    (emit (selection_changed (Some a))
                                       (emit layout_changed s1)))))))))"

definition mouseReleaseEvent :: "editor \<Rightarrow> editor" where
  "mouseReleaseEvent s = s\<lparr> ed_drag_key := None \<rparr>"

section \<open>Sample layouts\<close>

text \<open>\<^verbatim>\<open>presets._key(kid, label, x, y)\<close> with its default size and no overrides.\<close>

definition preset_key :: "string \<Rightarrow> string \<Rightarrow> rat \<Rightarrow> rat \<Rightarrow> key" where
  "preset_key kid label x y =
     \<lparr> key_id = kid, key_label = Some label, key_x = x, key_y = y, key_w = 1, key_h = 1,
       key_color = None, key_text_color = None \<rparr>"

text \<open>An overlay on the default theme in which the key \<^verbatim>\<open>a\<close> is held down.\<close>

definition held_a :: overlay where
  "held_a = update_key ''a'' True (overlay_init [preset_key ''a'' ''A'' 0 0] DEFAULT_THEME)"

text \<open>
  A layout in which two keys share the id \<^verbatim>\<open>a\<close>, loaded into a canvas on the
  default theme; in \<open>grab_a\<close> the left button went down on the first key (at its top left
  corner), in \<open>grab_b\<close> on the third one.
\<close>

definition dup_layout :: "key list" where
  "dup_layout =
     [preset_key ''a'' ''A'' 0 0, preset_key ''a'' ''A2'' 1 0, preset_key ''b'' ''B'' 2 0]"

definition dup_editor :: editor where
  "dup_editor =
     (case canvas_load_keys dup_layout (editor_init DEFAULT_THEME) of
        Inr s \<Rightarrow> s
      | Inl e \<Rightarrow> editor_init DEFAULT_THEME)"

definition grab_a :: editor where
  "grab_a = mousePressEvent True (10, 10) dup_editor"

definition grab_b :: editor where
  "grab_b = mousePressEvent True (110, 12) dup_editor"

text \<open>
  Two values that \<^verbatim>\<open>uuid.uuid4().hex\<close> can return (version digit 4, variant digit 8 or
  9); they differ, and agree on their first six digits.
\<close>

definition uuid_1 :: string where
  "uuid_1 = ''3f2a9c0e5b7d4a118c6e0f1a2b3c4d5e''"

definition uuid_2 :: string where
  "uuid_2 = ''3f2a9c117e2d4b229d7f1a2b3c4d5e6f''"

section \<open>Derived operations used to state the properties\<close>

text \<open>\<^verbatim>\<open>snap(snap(x, y))\<close>: \<open>snap_pos\<close> applied to its own result.\<close>

definition snap_twice :: "editor \<Rightarrow> rat \<Rightarrow> rat \<Rightarrow> error + rat \<times> rat" where
  "snap_twice s x y =
     (case snap_pos s x y of Inl e \<Rightarrow> Inl e | Inr (a, b) \<Rightarrow> snap_pos s a b)"

text \<open>
  The grid position \<^verbatim>\<open>(k["x"], k["y"])\<close> of the key dict at address \<open>a\<close> after a mouse
  move.
\<close>

definition drag_result :: "bool \<Rightarrow> rat \<times> rat \<Rightarrow> editor \<Rightarrow> nat \<Rightarrow> error + rat \<times> rat" where
  "drag_result left pos s a =
     (case mouseMoveEvent left pos s of
        Inl e \<Rightarrow> Inl e
      | Inr s' \<Rightarrow> Inr (key_x (ed_heap s' ! a), key_y (ed_heap s' ! a)))"

text \<open>
  What Python's object model gives the canvas for free: the list holds each dict once, every
  address refers to a dict that exists, and the selection is one of the listed dicts.  The
  drag target may be a dict that is no longer listed.
\<close>

definition editor_inv :: "editor \<Rightarrow> bool" where
  "editor_inv s =
     (distinct (ed_keys s)
      \<and> list_all (\<lambda>a. a < length (ed_heap s)) (ed_keys s)
      \<and> pred_option (\<lambda>a. a \<in> set (ed_keys s)) (ed_selected s)
      \<and> pred_option (\<lambda>a. a < length (ed_heap s)) (ed_drag_key s))"

section \<open>Properties of the overlay\<close>

lemma overlay_init_fields:
  "ov_pressed (overlay_init keys t) = {}"
  "ov_updates (overlay_init keys t) = 0"
  "ov_keys (overlay_init keys t) = keys"
  "ov_theme (overlay_init keys t) = t"
  by (simp_all add: overlay_init_def compute_geometry_def setup_window_def Let_def
      split: prod.split)

lemma held_a_fields:
  "ov_pressed held_a = {''a''}"
  "ov_updates held_a = 1"
  by (simp_all add: held_a_def update_key_def request_update_def overlay_init_fields)

text \<open>
  C1, as the code has it.  After \<open>update_key kid p\<close> the pressed-set contains \<open>kid\<close>
  exactly when \<open>p\<close> holds, and a repaint is requested exactly when the pressed-set
  changed.  Two presses in a row request one repaint when the key was up before the first
  of them and none when it was already down: the second press never requests one.  A
  release of a key that is not in the pressed-set leaves the whole state as it is.
\<close>

theorem update_key_repaints_on_change:
  "(kid \<in> ov_pressed (update_key kid p s) \<longleftrightarrow> p)
   \<and> ov_pressed (update_key kid p s) =
       (if p then insert kid (ov_pressed s) else ov_pressed s - {kid})
   \<and> ov_updates (update_key kid p s) =
       ov_updates s + (if ov_pressed (update_key kid p s) \<noteq> ov_pressed s then 1 else 0)
   \<and> ov_updates (update_key kid True (update_key kid True s)) =
       ov_updates s + (if kid \<in> ov_pressed s then 0 else 1)
   \<and> update_key kid True (update_key kid True s) = update_key kid True s
   \<and> (kid \<notin> ov_pressed s \<longrightarrow> update_key kid False s = s)"
  by (auto simp: update_key_def request_update_def)

theorem update_key_repaints_on_change_witness:
  "''b'' \<notin> ov_pressed held_a
   \<and> update_key ''b'' False held_a = held_a
   \<and> ov_updates (update_key ''b'' True (update_key ''b'' True held_a)) = ov_updates held_a + 1
   \<and> ov_pressed (update_key ''b'' True held_a) = {''a'', ''b''}"
proof -
  have up: "''b'' \<notin> ov_pressed held_a"
    by (simp add: held_a_fields)
  from update_key_repaints_on_change [of "''b''" True held_a]
       update_key_repaints_on_change [of "''b''" False held_a] up
  show ?thesis by (auto simp: held_a_fields)
qed

text \<open>
  C1 as stated fails where the key is already down: two further presses in a row request
  no repaint at all, not one.
\<close>

theorem update_key_twice_counterexample:
  "ov_updates (update_key ''a'' True (update_key ''a'' True held_a)) = ov_updates held_a
   \<and> ov_updates (update_key ''a'' True (update_key ''a'' True held_a)) \<noteq> ov_updates held_a + 1"
  by (simp add: update_key_def held_a_fields)

text \<open>
  C2.  The pixel rectangle of a key, in the editor (\<open>key_rect\<close>) and as painted by the
  overlay, is \<open>px = pad + x * (unit + gap)\<close>, \<open>py = pad + y * (row_height + gap)\<close>,
  \<open>pw = w * unit + (w - 1) * gap\<close>, \<open>ph = h * row_height + (h - 1) * gap\<close>, where
  \<open>pad\<close> is the constant 10 and \<open>unit\<close>, \<open>gap\<close>, \<open>row_height\<close> are the theme's
  entries (44, 4 and 44 where the theme has none).  At \<open>unit = 44\<close> and \<open>gap = 4\<close> a key in integer column
  \<open>n\<close> has \<open>px = 10 + n * 48\<close>, and a key of width 1 is exactly 44 pixels wide.
\<close>

theorem key_rect_formula:
  "key_rect t k =
     \<lparr> rect_x = of_int PAD + key_x k * of_int (unit_of t + gap_of t),
       rect_y = of_int PAD + key_y k * of_int (kh_of t + gap_of t),
       rect_w = key_w k * of_int (unit_of t) + (key_w k - 1) * of_int (gap_of t),
       rect_h = key_h k * of_int (kh_of t) + (key_h k - 1) * of_int (gap_of t) \<rparr>
   \<and> key_rect (t\<lparr> key_unit_px := Some u, key_gap_px := Some g, key_height_px := Some r \<rparr>) k =
     \<lparr> rect_x = 10 + key_x k * of_int (u + g),
       rect_y = 10 + key_y k * of_int (r + g),
       rect_w = key_w k * of_int u + (key_w k - 1) * of_int g,
       rect_h = key_h k * of_int r + (key_h k - 1) * of_int g \<rparr>
   \<and> d_rect (paint_key t pressed_set k) = key_rect t k
   \<and> map d_rect (paintEvent s) = map (key_rect (ov_theme s)) (ov_keys s)
   \<and> rect_x (key_rect (t\<lparr> key_unit_px := Some 44, key_gap_px := Some 4 \<rparr>)
              (k\<lparr> key_x := of_int n \<rparr>)) = 10 + of_int n * 48
   \<and> rect_w (key_rect (t\<lparr> key_unit_px := Some 44, key_gap_px := Some 4 \<rparr>)
              (k\<lparr> key_w := 1 \<rparr>)) = 44
   \<and> rect_w (key_rect t (k\<lparr> key_w := 1 \<rparr>)) = of_int (unit_of t)"
proof -
  have "key_rect t k =
     \<lparr> rect_x = of_int PAD + key_x k * of_int (unit_of t + gap_of t),
       rect_y = of_int PAD + key_y k * of_int (kh_of t + gap_of t),
       rect_w = key_w k * of_int (unit_of t) + (key_w k - 1) * of_int (gap_of t),
       rect_h = key_h k * of_int (kh_of t) + (key_h k - 1) * of_int (gap_of t) \<rparr>"
    by (simp add: key_rect_def Let_def)
  then show ?thesis
    by (simp add: key_rect_def unit_of_def gap_of_def kh_of_def dict_get_def PAD_def
        paint_key_def paintEvent_def Let_def)
qed

text \<open>
  C3, as the code has it.  \<open>load_keys\<close> shows the given keys, takes the given theme when it
  is a non-empty dict, sets the size to the one a new window on these keys and that theme
  gets, and requests one repaint.  It does not touch the pressed-set: the keys that were
  down stay down.
\<close>

theorem load_keys_keeps_pressed:
  "ov_pressed (load_keys keys th s) = ov_pressed s
   \<and> ov_keys (load_keys keys th s) = keys
   \<and> ov_theme (load_keys keys th s) =
       (case th of None \<Rightarrow> ov_theme s
        | Some t \<Rightarrow> if t \<noteq> empty_theme then t else ov_theme s)
   \<and> ov_size (load_keys keys th s) =
       ov_size (overlay_init keys (ov_theme (load_keys keys th s)))
   \<and> ov_updates (load_keys keys th s) = Suc (ov_updates s)"
  by (simp add: load_keys_def request_update_def compute_geometry_def setup_window_def
      overlay_init_def Let_def split: option.split prod.split)

text \<open>
  C3 as stated fails: a layout swap while \<^verbatim>\<open>a\<close> is held leaves \<^verbatim>\<open>a\<close> in the
  pressed-set.
\<close>

theorem load_keys_pressed_counterexample:
  "ov_pressed held_a = {''a''}
   \<and> ov_pressed (load_keys [preset_key ''b'' ''B'' 0 0] None held_a) = {''a''}
   \<and> ov_pressed (load_keys [preset_key ''b'' ''B'' 0 0] (Some DEFAULT_THEME) held_a) \<noteq> {}"
  by (simp add: held_a_fields load_keys_def request_update_def compute_geometry_def
      setup_window_def Let_def split: prod.split)

text \<open>
  C4.  The background of a painted key: while the key is pressed, the theme's
  mouse-pressed colour for a mouse key and the theme's key-pressed colour otherwise,
  whatever the key's own colour is; while it is idle, the key's own colour when that is set
  (a non-empty string), else the theme's mouse-idle colour for a mouse key and the theme's
  key-idle colour otherwise.  A mouse key is one whose id starts with \<^verbatim>\<open>mouse_\<close>, and a
  theme colour that is missing is replaced by its default.
\<close>

theorem bg_color_precedence:
  "bg_color t pressed_set k =
     (if key_id k \<in> pressed_set then
        (if take 6 (key_id k) = ''mouse_'' then QColor (dict_get (mouse_pressed t) ''#1e90ff'')
         else QColor (dict_get (key_pressed t) ''#7b68ee''))
      else
        (case key_color k of
           Some (c # cs) \<Rightarrow> QColor (c # cs)
         | _ \<Rightarrow>
           (if take 6 (key_id k) = ''mouse_'' then QColor (dict_get (mouse_idle t) ''#1e3a5f'')
            else QColor (dict_get (key_idle t) ''#2a2a3a''))))
   \<and> d_bg (paint_key t pressed_set k) = bg_color t pressed_set k
   \<and> map d_bg (paintEvent s) = map (bg_color (ov_theme s) (ov_pressed s)) (ov_keys s)"
  by (simp add: bg_color_def is_mouse_def hex_def and_None_def truthy_def paint_key_def
      paintEvent_def Let_def split: option.split list.split)

section \<open>Properties of the editor\<close>

lemma theme_consts:
  "unit_of DEFAULT_THEME = 44" "gap_of DEFAULT_THEME = 4" "kh_of DEFAULT_THEME = 44"
  by (simp_all add: unit_of_def gap_of_def kh_of_def dict_get_def DEFAULT_THEME_def)

lemma editor_init_fields:
  "ed_theme (editor_init t) = t" "ed_heap (editor_init t) = []" "ed_keys (editor_init t) = []"
  "ed_selected (editor_init t) = None" "ed_drag_key (editor_init t) = None"
  "ed_snap (editor_init DEFAULT_THEME) = True"
  by (simp_all add: editor_init_def dict_get_def DEFAULT_THEME_def)

text \<open>\<open>resize_to_fit\<close> never raises: the maximum is only taken of a non-empty list.\<close>

lemma resize_to_fit_Inr: "\<exists>s'. resize_to_fit s = Inr s'"
  by (cases "ed_keys s") (simp_all add: resize_to_fit_def Let_def)

lemma resize_to_fit_fields:
  assumes "resize_to_fit s = Inr s'"
  shows "ed_heap s' = ed_heap s" "ed_keys s' = ed_keys s" "ed_selected s' = ed_selected s"
    "ed_drag_key s' = ed_drag_key s" "ed_theme s' = ed_theme s" "ed_snap s' = ed_snap s"
    "ed_drag_offset s' = ed_drag_offset s"
  using assms by (cases "ed_keys s"; auto simp: resize_to_fit_def Let_def)+

subsection \<open>The store invariant holds in every reachable state\<close>

lemma editor_inv_init: "editor_inv (editor_init t)"
  by (simp add: editor_inv_def editor_init_def)

lemma editor_inv_resize:
  assumes "resize_to_fit s = Inr s'"
  shows "editor_inv s' = editor_inv s"
  by (simp add: editor_inv_def resize_to_fit_fields[OF assms])

lemma editor_inv_load_keys:
  assumes "editor_inv s" "canvas_load_keys keys s = Inr s'"
  shows "editor_inv s'"
proof -
  let ?s1 = "canvas_update (emit (selection_changed None)
     (s\<lparr> ed_heap := ed_heap s @ keys,
         ed_keys := [length (ed_heap s) ..< length (ed_heap s) + length keys],
         ed_selected := None \<rparr>))"
  have "resize_to_fit ?s1 = Inr s'"
    using assms(2) by (simp add: canvas_load_keys_def Let_def)
  then have "editor_inv s' = editor_inv ?s1"
    by (rule editor_inv_resize)
  moreover have "editor_inv ?s1"
    using assms(1)
    by (auto simp: editor_inv_def canvas_update_def emit_def list_all_iff option.pred_set split: option.splits)
  ultimately show ?thesis by simp
qed

lemma editor_inv_add_key: "editor_inv s \<Longrightarrow> editor_inv (add_key h s)"
  by (auto simp: editor_inv_def add_key_def canvas_update_def emit_def Let_def list_all_iff option.pred_set
      split: option.splits)

lemma editor_inv_delete_selected: "editor_inv s \<Longrightarrow> editor_inv (delete_selected s)"
  by (auto simp: editor_inv_def delete_selected_def canvas_update_def emit_def Let_def
      list_all_iff option.pred_set split: option.splits)

lemma editor_inv_update_selected: "editor_inv s \<Longrightarrow> editor_inv (update_selected us s)"
  by (auto simp: editor_inv_def update_selected_def canvas_update_def emit_def Let_def
      list_all_iff option.pred_set split: option.splits)

lemma first_hit_in: "first_hit s pos as = Some a \<Longrightarrow> a \<in> set as"
  by (induction as) (auto split: if_splits)

lemma editor_inv_mousePressEvent: "editor_inv s \<Longrightarrow> editor_inv (mousePressEvent left pos s)"
  by (auto simp: editor_inv_def mousePressEvent_def canvas_update_def emit_def Let_def
      key_at_def list_all_iff option.pred_set split: option.splits dest!: first_hit_in)

lemma editor_inv_mouseReleaseEvent: "editor_inv s \<Longrightarrow> editor_inv (mouseReleaseEvent s)"
  by (simp add: editor_inv_def mouseReleaseEvent_def)

lemma editor_inv_mouseMoveEvent:
  assumes "editor_inv s" "mouseMoveEvent left pos s = Inr s'"
  shows "editor_inv s'"
proof (cases "ed_drag_key s")
  case None
  then show ?thesis using assms by (simp add: mouseMoveEvent_def)
next
  case (Some a)
  show ?thesis
  proof (cases left)
    case False
    then show ?thesis using assms Some by (simp add: mouseMoveEvent_def)
  next
    case True
    then obtain k where r: "resize_to_fit (canvas_update (emit (selection_changed (Some a))
        (emit layout_changed (s\<lparr> ed_heap := list_update (ed_heap s) a k \<rparr>)))) = Inr s'"
      using assms(2) Some
      by (auto simp: mouseMoveEvent_def Let_def split: sum.splits prod.splits)
    have "editor_inv (canvas_update (emit (selection_changed (Some a))
        (emit layout_changed (s\<lparr> ed_heap := list_update (ed_heap s) a k \<rparr>))))"
      using assms(1) by (simp add: editor_inv_def canvas_update_def emit_def)
    then show ?thesis using editor_inv_resize[OF r] by simp
  qed
qed

lemma editor_inv_settings:
  "editor_inv (set_snap b s) = editor_inv s"
  "editor_inv (set_show_grid b s) = editor_inv s"
  "editor_inv (canvas_set_theme t s) = editor_inv s"
  by (simp_all add: editor_inv_def set_snap_def set_show_grid_def canvas_set_theme_def
      canvas_update_def)

subsection \<open>The sample states\<close>

lemma dup_editor_fields:
  "ed_heap dup_editor = dup_layout" "ed_keys dup_editor = [0, 1, 2]"
  "ed_selected dup_editor = None" "ed_drag_key dup_editor = None"
  "ed_theme dup_editor = DEFAULT_THEME" "ed_snap dup_editor = True"
  "ed_drag_offset dup_editor = (0, 0)"
proof -
  let ?s = "canvas_update (emit (selection_changed None)
     ((editor_init DEFAULT_THEME)
        \<lparr> ed_heap := dup_layout, ed_keys := [0, 1, 2], ed_selected := None \<rparr>))"
  have u: "[0 ..< length dup_layout] = [0, 1, 2]"
    by (simp add: dup_layout_def upt_rec)
  have l: "canvas_load_keys dup_layout (editor_init DEFAULT_THEME) = resize_to_fit ?s"
    by (simp add: canvas_load_keys_def Let_def editor_init_fields u)
  obtain s' where s': "resize_to_fit ?s = Inr s'"
    using resize_to_fit_Inr by blast
  have d: "dup_editor = s'"
    unfolding dup_editor_def l s' by simp
  show "ed_heap dup_editor = dup_layout" "ed_keys dup_editor = [0, 1, 2]"
    "ed_selected dup_editor = None" "ed_drag_key dup_editor = None"
    "ed_theme dup_editor = DEFAULT_THEME" "ed_snap dup_editor = True"
    "ed_drag_offset dup_editor = (0, 0)"
    unfolding d resize_to_fit_fields[OF s']
    by (simp_all add: canvas_update_def emit_def editor_init_def dict_get_def
        DEFAULT_THEME_def)
qed

lemma key_rect_default:
  "key_rect DEFAULT_THEME (preset_key kid label x y) =
     \<lparr> rect_x = 10 + x * 48, rect_y = 10 + y * 48, rect_w = 44, rect_h = 44 \<rparr>"
  by (simp add: key_rect_def theme_consts preset_key_def PAD_def Let_def)

lemma key_at_dup:
  "key_at dup_editor (10, 10) = Some 0"
  "key_at dup_editor (110, 12) = Some 2"
  by (simp_all add: key_at_def dup_editor_fields canvas_key_rect_def dup_layout_def
      key_rect_default rect_contains_def Let_def)

lemma grab_a_fields:
  "ed_heap grab_a = dup_layout" "ed_keys grab_a = [0, 1, 2]"
  "ed_selected grab_a = Some 0" "ed_drag_key grab_a = Some 0"
  "ed_theme grab_a = DEFAULT_THEME" "ed_snap grab_a = True"
  "ed_drag_offset grab_a = (0, 0)"
  by (simp_all add: grab_a_def mousePressEvent_def key_at_dup canvas_update_def emit_def
      dup_editor_fields canvas_key_rect_def dup_layout_def key_rect_default Let_def)

lemma grab_b_fields:
  "ed_heap grab_b = dup_layout" "ed_keys grab_b = [0, 1, 2]"
  "ed_selected grab_b = Some 2"
  by (simp_all add: grab_b_def mousePressEvent_def key_at_dup canvas_update_def emit_def
      dup_editor_fields canvas_key_rect_def dup_layout_def key_rect_default Let_def)

subsection \<open>Deleting and editing the selection\<close>

lemma filter_neq_remove1: "distinct xs \<Longrightarrow> filter (\<lambda>b. b \<noteq> a) xs = remove1 a xs"
  by (induction xs) (auto simp: remove1_idem)

text \<open>
  C6, as the code has it.  With a key selected, \<open>delete_selected\<close> drops from the working
  list every entry whose id equals the selected key's id and clears the selection; the
  number of entries dropped is the number of keys carrying that id.  When the selected key
  is in the list and no other entry has its id, exactly one entry, the selected one, is
  removed.
\<close>

theorem delete_selected_by_id:
  "ed_selected s = Some a \<Longrightarrow>
     ed_keys (delete_selected s) =
       filter (\<lambda>b. key_id (ed_heap s ! b) \<noteq> key_id (ed_heap s ! a)) (ed_keys s)
   \<and> ed_heap (delete_selected s) = ed_heap s
   \<and> ed_selected (delete_selected s) = None
   \<and> length (ed_keys (delete_selected s))
        + length (filter (\<lambda>b. key_id (ed_heap s ! b) = key_id (ed_heap s ! a)) (ed_keys s))
       = length (ed_keys s)
   \<and> (a \<in> set (ed_keys s) \<and> distinct (ed_keys s)
        \<and> (\<forall>b \<in> set (ed_keys s). key_id (ed_heap s ! b) = key_id (ed_heap s ! a) \<longrightarrow> b = a)
      \<longrightarrow> ed_keys (delete_selected s) = remove1 a (ed_keys s)
          \<and> Suc (length (ed_keys (delete_selected s))) = length (ed_keys s))"
proof -
  assume sel: "ed_selected s = Some a"
  let ?P = "\<lambda>b. key_id (ed_heap s ! b) \<noteq> key_id (ed_heap s ! a)"
  have k: "ed_keys (delete_selected s) = filter ?P (ed_keys s)"
    and h: "ed_heap (delete_selected s) = ed_heap s"
    and n: "ed_selected (delete_selected s) = None"
    using sel by (simp_all add: delete_selected_def canvas_update_def emit_def Let_def)
  have c: "length (filter ?P (ed_keys s)) + length (filter (\<lambda>b. \<not> ?P b) (ed_keys s))
           = length (ed_keys s)"
    by (rule sum_length_filter_compl)
  have u: "filter ?P (ed_keys s) = remove1 a (ed_keys s)
           \<and> Suc (length (filter ?P (ed_keys s))) = length (ed_keys s)"
    if "a \<in> set (ed_keys s)" "distinct (ed_keys s)"
       "\<forall>b \<in> set (ed_keys s). key_id (ed_heap s ! b) = key_id (ed_heap s ! a) \<longrightarrow> b = a"
  proof -
    have "filter ?P (ed_keys s) = filter (\<lambda>b. b \<noteq> a) (ed_keys s)"
      using that(3) by (intro filter_cong) auto
    also have "\<dots> = remove1 a (ed_keys s)"
      using that(2) by (rule filter_neq_remove1)
    finally have r: "filter ?P (ed_keys s) = remove1 a (ed_keys s)" .
    have "length (remove1 a (ed_keys s)) = length (ed_keys s) - 1"
      using that(1) by (simp add: length_remove1)
    moreover have "0 < length (ed_keys s)"
      using that(1) by (cases "ed_keys s") auto
    ultimately show ?thesis using r by simp
  qed
  have c': "length (ed_keys (delete_selected s))
        + length (filter (\<lambda>b. key_id (ed_heap s ! b) = key_id (ed_heap s ! a)) (ed_keys s))
       = length (ed_keys s)"
    using c by (simp add: k)
  from u have u': "a \<in> set (ed_keys s) \<and> distinct (ed_keys s)
        \<and> (\<forall>b \<in> set (ed_keys s). key_id (ed_heap s ! b) = key_id (ed_heap s ! a) \<longrightarrow> b = a)
      \<longrightarrow> ed_keys (delete_selected s) = remove1 a (ed_keys s)
          \<and> Suc (length (ed_keys (delete_selected s))) = length (ed_keys s)"
    unfolding k by blast
  from k h n c' u' show ?thesis by blast
qed

theorem delete_selected_by_id_witness:
  "ed_selected grab_b = Some 2 \<and> ed_keys grab_b = [0, 1, 2]
   \<and> ed_keys (delete_selected grab_b) = [0, 1]
   \<and> ed_selected (delete_selected grab_b) = None"
proof -
  have "ed_selected grab_b = Some 2"
    by (simp add: grab_b_fields)
  from delete_selected_by_id [OF this]
  show ?thesis by (simp add: grab_b_fields dup_layout_def preset_key_def)
qed

text \<open>
  C6 as stated fails on a layout in which two keys share an id: deleting the selected one
  of them removes both.
\<close>

theorem delete_selected_duplicates_counterexample:
  "ed_selected grab_a = Some 0
   \<and> map key_id (get_keys grab_a) = [''a'', ''a'', ''b'']
   \<and> map key_id (get_keys (delete_selected grab_a)) = [''b'']
   \<and> length (ed_keys (delete_selected grab_a)) + 2 = length (ed_keys grab_a)"
  by (simp add: delete_selected_def get_keys_def canvas_update_def emit_def grab_a_fields
      dup_layout_def preset_key_def Let_def)

text \<open>
  C9.  With no selection, \<open>delete_selected\<close> and \<open>update_selected\<close> return the editor
  state they were given, whatever the updates are: nothing is raised, and the key list,
  the key dicts, the signal log and the repaint count are untouched.
\<close>

theorem no_selection_is_noop:
  "ed_selected s = None \<Longrightarrow> delete_selected s = s \<and> update_selected updates s = s"
  by (simp add: delete_selected_def update_selected_def)

theorem no_selection_is_noop_witness:
  "ed_selected dup_editor = None \<and> delete_selected dup_editor = dup_editor
   \<and> update_selected [Set_id ''z'', Set_x 3] dup_editor = dup_editor
   \<and> get_keys (delete_selected dup_editor) = dup_layout"
  using no_selection_is_noop [of dup_editor "[Set_id ''z'', Set_x 3]"]
  by (simp add: dup_editor_fields get_keys_def dup_layout_def)

text \<open>
  C10.  On an empty key list the overlay's geometry is computed without a fault and the
  window gets the size \<open>(2 * pad, 2 * pad) = (20, 20)\<close>, at creation, on a reload and
  whatever the theme is; the editor's \<open>resize_to_fit\<close> returns the state unchanged there,
  and never takes the maximum of an empty sequence (which would raise).
\<close>

theorem empty_layout_geometry:
  "ov_size (overlay_init [] t) = (2 * PAD, 2 * PAD)
   \<and> ov_size (overlay_init [] t) = (20, 20)
   \<and> ov_size (compute_geometry (s\<lparr> ov_keys := [] \<rparr>)) = (20, 20)
   \<and> ov_size (load_keys [] th s) = (20, 20)
   \<and> resize_to_fit (e\<lparr> ed_keys := [] \<rparr>) = Inr (e\<lparr> ed_keys := [] \<rparr>)
   \<and> py_max [] = Inl ValueError
   \<and> (\<exists>e'. resize_to_fit e = Inr e')"
proof -
  have "\<exists>e'. resize_to_fit e = Inr e'"
    by (rule resize_to_fit_Inr)
  moreover have "resize_to_fit (e\<lparr> ed_keys := [] \<rparr>) = Inr (e\<lparr> ed_keys := [] \<rparr>)"
    by (simp add: resize_to_fit_def)
  moreover have "ov_size (overlay_init [] t) = (20, 20)"
    by (simp add: overlay_init_def compute_geometry_def setup_window_def py_int_def Let_def)
  moreover have "ov_size (compute_geometry (s\<lparr> ov_keys := [] \<rparr>)) = (20, 20)"
    by (simp add: compute_geometry_def py_int_def Let_def)
  moreover have "ov_size (load_keys [] th s) = (20, 20)"
    by (simp add: compute_geometry_def setup_window_def load_keys_def
        request_update_def py_int_def Let_def split: option.split)
  ultimately show ?thesis by (simp add: PAD_def)
qed

subsection \<open>Rounding\<close>

lemma py_round_small:
  assumes "- 1 / 2 \<le> v" "v \<le> 1 / 2"
  shows "py_round v = 0"
proof -
  consider "v < 0" | "0 \<le> v" by linarith
  then show ?thesis
  proof cases
    case 1
    then have f: "\<lfloor>v\<rfloor> = - 1" using assms by (simp add: floor_eq_iff)
    show ?thesis using assms 1 by (auto simp: py_round_def f Let_def)
  next
    case 2
    then have f: "\<lfloor>v\<rfloor> = 0" using assms by (simp add: floor_eq_iff)
    show ?thesis using assms 2 by (auto simp: py_round_def f Let_def)
  qed
qed

subsection \<open>Snapping and dragging\<close>

lemma snap_pos_on:
  assumes "ed_snap s" "unit_of (ed_theme s) + gap_of (ed_theme s) \<noteq> 0"
    "kh_of (ed_theme s) + gap_of (ed_theme s) \<noteq> 0"
  shows "snap_pos s x y =
     Inr (of_int (py_round (x / of_int (unit_of (ed_theme s) + gap_of (ed_theme s)))),
          of_int (py_round (y / of_int (kh_of (ed_theme s) + gap_of (ed_theme s)))))"
  using assms by (simp add: snap_pos_def py_truediv_def Let_def)

lemma snap_pos_off: "\<not> ed_snap s \<Longrightarrow> snap_pos s x y = Inr (x, y)"
  by (simp add: snap_pos_def)

lemma mouseMoveEvent_position:
  assumes d: "ed_drag_key s = Some a" and l: "a < length (ed_heap s)"
    and gx: "unit_of (ed_theme s) + gap_of (ed_theme s) \<noteq> 0"
    and gy: "kh_of (ed_theme s) + gap_of (ed_theme s) \<noteq> 0"
  shows "drag_result True pos s a =
     (let raw_x = (fst pos - fst (ed_drag_offset s) - 10)
                    / of_int (unit_of (ed_theme s) + gap_of (ed_theme s));
          raw_y = (snd pos - snd (ed_drag_offset s) - 10)
                    / of_int (kh_of (ed_theme s) + gap_of (ed_theme s))
      in if ed_snap s then
           Inr (max 0 (of_int (py_round
                   (raw_x / of_int (unit_of (ed_theme s) + gap_of (ed_theme s))))),
                max 0 (of_int (py_round
                   (raw_y / of_int (kh_of (ed_theme s) + gap_of (ed_theme s))))))
         else Inr (max 0 raw_x, max 0 raw_y))"
proof -
  let ?gx = "unit_of (ed_theme s) + gap_of (ed_theme s)"
  let ?gy = "kh_of (ed_theme s) + gap_of (ed_theme s)"
  let ?rx = "(fst pos - fst (ed_drag_offset s) - 10) / of_int ?gx"
  let ?ry = "(snd pos - snd (ed_drag_offset s) - 10) / of_int ?gy"
  obtain sx sy where sp: "snap_pos s ?rx ?ry = Inr (sx, sy)"
    and sx: "sx = (if ed_snap s then of_int (py_round (?rx / of_int ?gx)) else ?rx)"
    and sy: "sy = (if ed_snap s then of_int (py_round (?ry / of_int ?gy)) else ?ry)"
    using gx gy by (cases "ed_snap s") (simp_all add: snap_pos_on snap_pos_off)
  let ?nx = "max 0 (if ed_snap s then sx else max 0 ?rx)"
  let ?ny = "max 0 (if ed_snap s then sy else max 0 ?ry)"
  let ?s1 = "canvas_update (emit (selection_changed (Some a)) (emit layout_changed
     (s\<lparr> ed_heap := list_update (ed_heap s) a ((ed_heap s ! a)\<lparr> key_x := ?nx, key_y := ?ny \<rparr>) \<rparr>)))"
  have m: "mouseMoveEvent True pos s = resize_to_fit ?s1"
    using d gx gy sp by (simp add: mouseMoveEvent_def py_truediv_def PAD_def Let_def)
  obtain s' where s': "resize_to_fit ?s1 = Inr s'"
    using resize_to_fit_Inr by blast
  have h: "ed_heap s' = list_update (ed_heap s) a ((ed_heap s ! a)\<lparr> key_x := ?nx, key_y := ?ny \<rparr>)"
    unfolding resize_to_fit_fields[OF s'] by (simp add: canvas_update_def emit_def)
  have "drag_result True pos s a = Inr (?nx, ?ny)"
    using l by (simp add: drag_result_def m s' h)
  then show ?thesis
    by (simp add: sx sy Let_def)
qed

text \<open>
  C5, evaluated on the code.  On the default theme (unit 44, gap 4, row height 44) with
  snap-to-grid on, a key grabbed at its top left corner (grab offset \<open>(0, 0)\<close>) is dragged
  to the pointer position \<open>(106, 58)\<close>.  The pixel-per-unit ratios are \<open>96 / 48 = 2\<close> and
  \<open>48 / 48 = 1\<close>, which round to the grid cell \<open>(2, 1)\<close>; the code puts the key at
  \<open>(0, 0)\<close>, because \<^verbatim>\<open>mouseMoveEvent\<close> hands the ratios to \<^verbatim>\<open>_snap_pos\<close>, which
  divides by the pitch once more before rounding.  With snap-to-grid off the same drag puts
  the key at \<open>(2, 1)\<close>.
\<close>

theorem drag_snap_lands_on_origin:
  "ed_drag_key grab_a = Some 0 \<and> ed_snap grab_a \<and> ed_drag_offset grab_a = (0, 0)
   \<and> (py_round ((106 - 0 - 10) / 48), py_round ((58 - 0 - 10) / 48)) = (2, 1)
   \<and> drag_result True (106, 58) grab_a 0 = Inr (0, 0)
   \<and> drag_result True (106, 58) (set_snap False grab_a) 0 = Inr (2, 1)"
proof -
  have r: "py_round 2 = 2" "py_round 1 = 1" "py_round (1 / 24) = 0" "py_round (1 / 48) = 0"
    by (simp_all add: py_round_small) (simp_all add: py_round_def)
  have a: "drag_result True (106, 58) grab_a 0 = Inr (0, 0)"
    by (subst mouseMoveEvent_position)
       (simp_all add: grab_a_fields theme_consts dup_layout_def r Let_def)
  have b: "drag_result True (106, 58) (set_snap False grab_a) 0 = Inr (2, 1)"
    by (subst mouseMoveEvent_position)
       (simp_all add: set_snap_def grab_a_fields theme_consts dup_layout_def Let_def)
  show ?thesis using a b by (simp add: grab_a_fields r)
qed

text \<open>
  C7, evaluated on the code.  Snapping is claimed to be idempotent.  On the default theme
  (pitch \<open>44 + 4 = 48\<close> in both directions) with snap-to-grid on, \<open>snap_pos\<close> sends
  \<open>(96, 96)\<close> to the grid cell \<open>(2, 2)\<close>, and sends \<open>(2, 2)\<close> on to \<open>(0, 0)\<close>: applied
  twice it gives \<open>(0, 0)\<close>, not \<open>(2, 2)\<close>.  The second result differs because
  \<^verbatim>\<open>_snap_pos\<close> divides its argument by the pitch before rounding, the division that
  \<^verbatim>\<open>mouseMoveEvent\<close> has already done for the ratios it passes in.  The branch of the same
  function for snap-to-grid off returns its argument as it is, and is idempotent.
\<close>

theorem snap_pos_twice_on_default_theme:
  "snap_pos (editor_init DEFAULT_THEME) 96 96 = Inr (2, 2)
   \<and> snap_pos (editor_init DEFAULT_THEME) 2 2 = Inr (0, 0)
   \<and> snap_twice (editor_init DEFAULT_THEME) 96 96 = Inr (0, 0)
   \<and> snap_twice (editor_init DEFAULT_THEME) 96 96 \<noteq> snap_pos (editor_init DEFAULT_THEME) 96 96
   \<and> snap_pos (set_snap False (editor_init DEFAULT_THEME)) 96 96 = Inr (96, 96)
   \<and> snap_twice (set_snap False (editor_init DEFAULT_THEME)) 96 96
       = snap_pos (set_snap False (editor_init DEFAULT_THEME)) 96 96"
proof -
  have r: "py_round 2 = 2" "py_round (1 / 24) = 0"
    by (simp_all add: py_round_small) (simp add: py_round_def)
  have on: "snap_pos (editor_init DEFAULT_THEME) 96 96 = Inr (2, 2)"
    "snap_pos (editor_init DEFAULT_THEME) 2 2 = Inr (0, 0)"
    by (simp_all add: snap_pos_def editor_init_fields theme_consts py_truediv_def r Let_def)
  have off: "snap_pos (set_snap False (editor_init DEFAULT_THEME)) x y = Inr (x, y)" for x y
    by (rule snap_pos_off) (simp add: set_snap_def)
  show ?thesis
    by (simp add: snap_twice_def on off)
qed

subsection \<open>Adding keys\<close>

text \<open>
  C8, as the code has it.  \<open>add_key\<close> appends one new key dict to the working list and
  makes it the selection; the key has the id \<^verbatim>\<open>key_\<close> followed by the first six digits
  of the UUID drawn, the label \<^verbatim>\<open>New\<close>, size 1 by 1 and the grid position \<open>(0, 9)\<close>.
  Where the list holds valid addresses the keys already there are unchanged.  Nothing
  compares the new id with other ids: the ids of two added keys differ exactly when the
  six digits drawn differ.
\<close>

theorem add_key_appends:
  "ed_keys (add_key h s) = ed_keys s @ [length (ed_heap s)]
   \<and> ed_heap (add_key h s) = ed_heap s @ [new_key h]
   \<and> ed_selected (add_key h s) = Some (length (ed_heap s))
   \<and> new_key h = \<lparr> key_id = ''key_'' @ take 6 h, key_label = Some ''New'',
                     key_x = 0, key_y = 9, key_w = 1, key_h = 1,
                     key_color = None, key_text_color = None \<rparr>
   \<and> ((\<forall>a \<in> set (ed_keys s). a < length (ed_heap s)) \<longrightarrow>
        get_keys (add_key h s) = get_keys s @ [new_key h]
        \<and> get_keys (add_key h' (add_key h s)) = get_keys s @ [new_key h, new_key h'])
   \<and> (key_id (new_key h) = key_id (new_key h') \<longleftrightarrow> take 6 h = take 6 h')"
proof -
  have f: "ed_keys (add_key h s) = ed_keys s @ [length (ed_heap s)]"
    "ed_heap (add_key h s) = ed_heap s @ [new_key h]"
    "ed_selected (add_key h s) = Some (length (ed_heap s))" for h s
    by (simp_all add: add_key_def canvas_update_def emit_def Let_def)
  have g: "get_keys (add_key h s) = get_keys s @ [new_key h]"
    if "\<forall>a \<in> set (ed_keys s). a < length (ed_heap s)" for h s
    using that by (simp add: get_keys_def f nth_append)
  have w: "\<forall>a \<in> set (ed_keys (add_key h s)). a < length (ed_heap (add_key h s))"
    if "\<forall>a \<in> set (ed_keys s). a < length (ed_heap s)"
    using that by (auto simp: f)
  have g2: "get_keys (add_key h' (add_key h s)) = get_keys s @ [new_key h, new_key h']"
    if "\<forall>a \<in> set (ed_keys s). a < length (ed_heap s)"
    using g[OF w[OF that]] g[OF that] by simp
  have i: "key_id (new_key h) = key_id (new_key h') \<longleftrightarrow> take 6 h = take 6 h'"
    by (simp add: new_key_def)
  show ?thesis using f g g2 i by (simp add: new_key_def)
qed

theorem add_key_appends_witness:
  "ed_keys dup_editor = [0, 1, 2] \<and> length (ed_heap dup_editor) = 3
   \<and> map key_id (get_keys (add_key uuid_1 dup_editor)) = [''a'', ''a'', ''b'', ''key_3f2a9c'']
   \<and> ed_selected (add_key uuid_1 dup_editor) = Some 3"
proof -
  have w: "\<forall>a \<in> set (ed_keys dup_editor). a < length (ed_heap dup_editor)"
    by (simp add: dup_editor_fields dup_layout_def)
  from add_key_appends [of uuid_1 dup_editor uuid_1] w
  show ?thesis
    by (simp add: dup_editor_fields get_keys_def dup_layout_def preset_key_def uuid_1_def)
qed

text \<open>
  C8 as stated fails when two draws agree on their first six digits: two \<open>add_key\<close> calls
  in a row then give two keys with the same id.
\<close>

theorem add_key_collision_counterexample:
  "uuid_1 \<noteq> uuid_2
   \<and> map key_id (get_keys (add_key uuid_2 (add_key uuid_1 (editor_init DEFAULT_THEME))))
       = [''key_3f2a9c'', ''key_3f2a9c'']"
  by (simp add: add_key_def get_keys_def canvas_update_def emit_def editor_init_fields
      new_key_def uuid_1_def uuid_2_def Let_def)

end
